theory Spec2Isabelle
  imports Complex_Main
begin

section \<open>The keyboard camera controller of main.js / KeyControls.js\<close>

text \<open>
  The source file holds main.js and two revisions of KeyControls.js. main.js calls
  \<^verbatim>\<open>controls.updateView\<close>, which only the second revision (the one with
  \<^verbatim>\<open>collisionMargin\<close>, \<^verbatim>\<open>translateViewZ\<close> and
  \<^verbatim>\<open>translateViewX\<close>) defines; that revision is the one embedded here.

  JavaScript numbers are embedded as \<^typ>\<open>real\<close>: no rounding, no infinities and no NaN.
  A key code is a \<^typ>\<open>nat\<close>. Mutation of \<^verbatim>\<open>this\<close> is explicit state passing:
  every method takes the controller and returns the updated controller.
\<close>

subsection \<open>Vectors, quaternions and the camera\<close>

datatype Vector3 = Vector3 (vx: real) (vy: real) (vz: real)

datatype Quaternion = Quaternion (qx: real) (qy: real) (qz: real) (qw: real)

text \<open>
  The methods of THREE.Vector3 and THREE.Object3D that the controller calls belong to the
  three.js library, which is not under src/. The spec names them as the camera's
  operations: "translate along a named local axis by a signed distance", "the camera's
  local forward unit vector (rotated into world space via the camera's current
  orientation)", "the cross product of that forward vector with the world up vector".
\<close>

text \<open>Modelled from the spec: \<^verbatim>\<open>Vector3.clone\<close> is missing; it copies a vector,
  so it is the identity on values.\<close>

definition clone :: "Vector3 \<Rightarrow> Vector3" where
  "clone v = v"

text \<open>Modelled from the spec: \<^verbatim>\<open>Vector3.multiplyScalar\<close> is missing; it scales
  each component.\<close>

definition multiplyScalar :: "Vector3 \<Rightarrow> real \<Rightarrow> Vector3" where
  "multiplyScalar v s = Vector3 (vx v * s) (vy v * s) (vz v * s)"

text \<open>Modelled from the spec: \<^verbatim>\<open>Vector3.add\<close> is missing; it adds
  componentwise.\<close>

definition add :: "Vector3 \<Rightarrow> Vector3 \<Rightarrow> Vector3" where
  "add a b = Vector3 (vx a + vx b) (vy a + vy b) (vz a + vz b)"

text \<open>Modelled from the spec: \<^verbatim>\<open>Vector3.cross\<close> is missing; \<open>cross a b\<close> is
  the cross product \<open>a \<times> b\<close> that \<^verbatim>\<open>a.cross(b)\<close> leaves in \<open>a\<close>.\<close>

definition cross :: "Vector3 \<Rightarrow> Vector3 \<Rightarrow> Vector3" where
  "cross a b = Vector3 (vy a * vz b - vz a * vy b)
                       (vz a * vx b - vx a * vz b)
                       (vx a * vy b - vy a * vx b)"

text \<open>Modelled from the spec: \<^verbatim>\<open>Vector3.applyQuaternion\<close> is missing; it rotates
  the vector into world space by the orientation \<open>q\<close>: the quaternion product of
  \<open>q\<close>, the vector and the conjugate of \<open>q\<close> (for a quaternion that is not of unit
  length the result is scaled by its squared norm).\<close>

definition applyQuaternion :: "Vector3 \<Rightarrow> Quaternion \<Rightarrow> Vector3" where
  "applyQuaternion v q =
     (let x = vx v; y = vy v; z = vz v;
          ix = qw q * x + qy q * z - qz q * y;
          iy = qw q * y + qz q * x - qx q * z;
          iz = qw q * z + qx q * y - qy q * x;
          iw = - qx q * x - qy q * y - qz q * z
      in Vector3 (ix * qw q + iw * - qx q + iy * - qz q - iz * - qy q)
                 (iy * qw q + iw * - qy q + iz * - qx q - ix * - qz q)
                 (iz * qw q + iw * - qz q + ix * - qy q - iy * - qx q))"

record Camera =
  position :: Vector3
  quaternion :: Quaternion

text \<open>Modelled from the spec: \<^verbatim>\<open>Object3D.translateOnAxis\<close> is missing; it moves
  the position by the signed distance along the local axis rotated into world space.\<close>

definition translateOnAxis :: "Camera \<Rightarrow> Vector3 \<Rightarrow> real \<Rightarrow> Camera" where
  "translateOnAxis cam axis distance =
     cam\<lparr>position := add (position cam)
                          (multiplyScalar (applyQuaternion axis (quaternion cam)) distance)\<rparr>"

text \<open>Modelled from the spec: \<^verbatim>\<open>Object3D.translateX\<close> is missing; the local axis
  is \<open>(1, 0, 0)\<close>.\<close>

definition translateX :: "Camera \<Rightarrow> real \<Rightarrow> Camera" where
  "translateX cam distance = translateOnAxis cam (Vector3 1 0 0) distance"

text \<open>Modelled from the spec: \<^verbatim>\<open>Object3D.translateZ\<close> is missing; the local axis
  is \<open>(0, 0, 1)\<close>.\<close>

definition translateZ :: "Camera \<Rightarrow> real \<Rightarrow> Camera" where
  "translateZ cam distance = translateOnAxis cam (Vector3 0 0 1) distance"

text \<open>
  Modelled from the spec: \<^verbatim>\<open>camera.lookAt\<close> is missing; it "reorients" the camera
  "so a given world point is centered in view": it recomputes the camera's quaternion from
  its position and the point looked at, and writes nothing else. The computation itself (a
  rotation matrix turned into a quaternion) is library code; it is the parameter \<open>look\<close>.
\<close>

type_synonym lookAt_fn = "Vector3 \<Rightarrow> Vector3 \<Rightarrow> Quaternion"

definition lookAt :: "lookAt_fn \<Rightarrow> Camera \<Rightarrow> Vector3 \<Rightarrow> Camera" where
  "lookAt look cam v = cam\<lparr>quaternion := look (position cam) v\<rparr>"

text \<open>Modelled from the spec: \<^verbatim>\<open>THREE.Math.degToRad\<close> is missing; it converts
  degrees to radians.\<close>

definition degToRad :: "real \<Rightarrow> real" where
  "degToRad degrees = degrees * (pi / 180)"

subsection \<open>The controller's state\<close>

text \<open>
  \<^verbatim>\<open>freeze\<close> is never initialised by the constructor, so it starts as
  \<^verbatim>\<open>undefined\<close>: \<open>None\<close>. \<^verbatim>\<open>!this.freeze\<close> is JavaScript's
  negation of the truthiness of the field.
\<close>

record KeyControls =
  camera :: Camera
  target :: Vector3
  movementSpeed :: real
  lookSpeed :: real
  lookVertical :: bool
  invertVertical :: bool
  verticalMin :: real
  verticalMax :: real
  lat :: real
  lon :: real
  phi :: real
  theta :: real
  translateForward :: bool
  translateBackward :: bool
  translateLeft :: bool
  translateRight :: bool
  yawRight :: bool
  yawLeft :: bool
  pitchUp :: bool
  pitchDown :: bool
  collisionMargin :: real
  freeze :: "bool option"

definition truthy :: "bool option \<Rightarrow> bool" where
  "truthy v = (case v of None \<Rightarrow> False | Some b \<Rightarrow> b)"

definition js_not :: "bool option \<Rightarrow> bool option" where
  "js_not v = Some (\<not> truthy v)"

definition new_KeyControls :: "Camera \<Rightarrow> KeyControls" where
  "new_KeyControls cam =
     \<lparr>camera = cam, target = Vector3 0 0 0,
      movementSpeed = 1.0, lookSpeed = 0.01,
      lookVertical = True, invertVertical = False,
      verticalMin = 0, verticalMax = pi,
      lat = 0, lon = 0, phi = 0, theta = 0,
      translateForward = False, translateBackward = False,
      translateLeft = False, translateRight = False,
      yawRight = False, yawLeft = False,
      pitchUp = False, pitchDown = False,
      collisionMargin = 5, freeze = None\<rparr>"

subsection \<open>Key handlers\<close>

definition onKeyDown :: "nat \<Rightarrow> KeyControls \<Rightarrow> KeyControls" where
  "onKeyDown keyCode s =
     (if keyCode = 87 then s\<lparr>translateForward := True\<rparr>
      else if keyCode = 65 then s\<lparr>translateLeft := True\<rparr>
      else if keyCode = 83 then s\<lparr>translateBackward := True\<rparr>
      else if keyCode = 68 then s\<lparr>translateRight := True\<rparr>
      else if keyCode = 38 then s\<lparr>translateForward := True\<rparr>
      else if keyCode = 40 then s\<lparr>translateBackward := True\<rparr>
      else if keyCode = 37 then s\<lparr>yawLeft := True\<rparr>
      else if keyCode = 81 then s\<lparr>yawLeft := True\<rparr>
      else if keyCode = 39 then s\<lparr>yawRight := True\<rparr>
      else if keyCode = 69 then s\<lparr>yawRight := True\<rparr>
      else if keyCode = 27 then s\<lparr>freeze := js_not (freeze s)\<rparr>
      else s)"

definition onKeyUp :: "nat \<Rightarrow> KeyControls \<Rightarrow> KeyControls" where
  "onKeyUp keyCode s =
     (if keyCode = 87 then s\<lparr>translateForward := False\<rparr>
      else if keyCode = 65 then s\<lparr>translateLeft := False\<rparr>
      else if keyCode = 83 then s\<lparr>translateBackward := False\<rparr>
      else if keyCode = 68 then s\<lparr>translateRight := False\<rparr>
      else if keyCode = 38 then s\<lparr>translateForward := False\<rparr>
      else if keyCode = 40 then s\<lparr>translateBackward := False\<rparr>
      else if keyCode = 37 then s\<lparr>yawLeft := False\<rparr>
      else if keyCode = 81 then s\<lparr>yawLeft := False\<rparr>
      else if keyCode = 39 then s\<lparr>yawRight := False\<rparr>
      else if keyCode = 69 then s\<lparr>yawRight := False\<rparr>
      else if keyCode = 27 then s\<lparr>freeze := js_not (freeze s)\<rparr>
      else s)"

subsection \<open>The scene graph and the collidable set\<close>

text \<open>
  Modelled from the spec: the classes of three.js are missing. These are the classes
  main.js instantiates (scene, perspective camera, mesh, directional light, the plain
  Object3D that the OBJ loader returns) and their ancestors.
\<close>

datatype THREE_class =
  THREE_Object3D | THREE_Mesh | THREE_Camera | THREE_PerspectiveCamera
  | THREE_Light | THREE_DirectionalLight | THREE_Scene

text \<open>Modelled from the spec: a node of the scene graph, of which the controller reads
  the class and the children; the geometry is opaque and only the ray cast looks at it.\<close>

datatype 'g Object3D =
  Object3D (class_of: THREE_class) (geometry: 'g) (children: "'g Object3D list")

text \<open>Modelled from the spec: the class declarations are missing. \<open>prototype_chain c\<close>
  lists the constructors whose prototype lies on the prototype chain of an instance of
  \<open>c\<close>, innermost first.\<close>

fun prototype_chain :: "THREE_class \<Rightarrow> THREE_class list" where
  "prototype_chain THREE_Object3D = [THREE_Object3D]"
| "prototype_chain THREE_Mesh = [THREE_Mesh, THREE_Object3D]"
| "prototype_chain THREE_Camera = [THREE_Camera, THREE_Object3D]"
| "prototype_chain THREE_PerspectiveCamera =
     [THREE_PerspectiveCamera, THREE_Camera, THREE_Object3D]"
| "prototype_chain THREE_Light = [THREE_Light, THREE_Object3D]"
| "prototype_chain THREE_DirectionalLight =
     [THREE_DirectionalLight, THREE_Light, THREE_Object3D]"
| "prototype_chain THREE_Scene = [THREE_Scene, THREE_Object3D]"

text \<open>\<^verbatim>\<open>child instanceof C\<close>: the prototype of \<open>C\<close> lies on the prototype chain
  of \<open>child\<close>.\<close>

definition instanceof :: "'g Object3D \<Rightarrow> THREE_class \<Rightarrow> bool" where
  "instanceof child c = (c \<in> set (prototype_chain (class_of child)))"

text \<open>\<^verbatim>\<open>scene\<close> is the global variable of main.js; the controller only reads it.
  Here it holds a scene; the case of a variable that has no value yet comes further down.\<close>

definition getCollideableObjects :: "'g Object3D \<Rightarrow> 'g Object3D list" where
  "getCollideableObjects scene =
     filter (\<lambda>child. instanceof child THREE_Mesh \<or> instanceof child THREE_Object3D)
            (children scene)"

subsection \<open>Translation with the collision probe\<close>

text \<open>
  \<^verbatim>\<open>new THREE.Raycaster(origin, direction, near, far).intersectObjects(objects, recursive)\<close>
  is library code. The controller is embedded over any such function \<open>rc\<close>: it only
  tests whether the returned array is empty.
\<close>

type_synonym ('g, 'h) raycast =
  "Vector3 \<Rightarrow> Vector3 \<Rightarrow> real \<Rightarrow> real \<Rightarrow> 'g Object3D list \<Rightarrow> bool \<Rightarrow> 'h list"

definition translateViewZ ::
  "('g, 'h) raycast \<Rightarrow> 'g Object3D \<Rightarrow> bool \<Rightarrow> real \<Rightarrow> KeyControls \<Rightarrow> KeyControls" where
  "translateViewZ rc scene forward units s =
     (let cameraDirVector = applyQuaternion (Vector3 0 0 (- 1)) (quaternion (camera s));
          modelObjects = getCollideableObjects scene;
          directionVector = (if forward then cameraDirVector
                             else multiplyScalar (clone cameraDirVector) (- 1));
          intersections = rc (position (camera s)) directionVector 0
                             (units + collisionMargin s) modelObjects True
      in if length intersections < 1
         then s\<lparr>camera := translateZ (camera s) ((if forward then - 1 else 1) * units)\<rparr>
         else s)"

definition translateViewX ::
  "('g, 'h) raycast \<Rightarrow> 'g Object3D \<Rightarrow> bool \<Rightarrow> real \<Rightarrow> KeyControls \<Rightarrow> KeyControls" where
  "translateViewX rc scene right units s =
     (let cameraDirVector = applyQuaternion (Vector3 0 0 (- 1)) (quaternion (camera s));
          modelObjects = getCollideableObjects scene;
          upVector = Vector3 0 1 0;
          directionVector = (if right then cross (clone cameraDirVector) upVector
                             else cross (clone upVector) cameraDirVector);
          intersections = rc (position (camera s)) directionVector 0
                             (units + collisionMargin s) modelObjects True
      in if length intersections < 1
         then s\<lparr>camera := translateX (camera s) ((if right then 1 else - 1) * units)\<rparr>
         else s)"

definition translateView ::
  "('g, 'h) raycast \<Rightarrow> 'g Object3D \<Rightarrow> real \<Rightarrow> KeyControls \<Rightarrow> KeyControls" where
  "translateView rc scene timeDelta s =
     (let translationSpeed = timeDelta * movementSpeed s;
          s1 = (if translateForward s then translateViewZ rc scene True translationSpeed s
                else s);
          s2 = (if translateBackward s1 then translateViewZ rc scene False translationSpeed s1
                else s1);
          s3 = (if translateLeft s2 then translateViewX rc scene False translationSpeed s2
                else s2)
      in if translateRight s3 then translateViewX rc scene True translationSpeed s3 else s3)"

subsection \<open>Rotation and the frame update\<close>

definition rotateView :: "lookAt_fn \<Rightarrow> real \<Rightarrow> KeyControls \<Rightarrow> KeyControls" where
  "rotateView look timeDelta s =
     (let actualLookSpeed = lookSpeed s;
          s1 = (if yawLeft s then s\<lparr>theta := theta s - actualLookSpeed\<rparr> else s);
          s2 = (if yawRight s1 then s1\<lparr>theta := theta s1 + actualLookSpeed\<rparr> else s1);
          s3 = (if lookVertical s2
                then (let invertfactor = (if invertVertical s2 then 1 else - 1);
                          a = (if pitchUp s2 then s2\<lparr>lat := lat s2 + invertfactor * 0.5\<rparr>
                               else s2)
                      in if pitchDown a then a\<lparr>lat := lat a - invertfactor * 0.5\<rparr> else a)
                else s2);
          s4 = s3\<lparr>lat := max (- 89) (min 89 (lat s3))\<rparr>;
          s5 = s4\<lparr>phi := degToRad (90 - lat s4)\<rparr>;
          pos = position (camera s5);
          distanceAhead = 100;
          s6 = s5\<lparr>target := Vector3
                  (vx pos + distanceAhead * sin (phi s5) * cos (theta s5))
                  (vy pos + distanceAhead * cos (phi s5))
                  (vz pos + distanceAhead * sin (phi s5) * sin (theta s5))\<rparr>
      in s6\<lparr>camera := lookAt look (camera s6) (target s6)\<rparr>)"

definition updateView ::
  "('g, 'h) raycast \<Rightarrow> lookAt_fn \<Rightarrow> 'g Object3D \<Rightarrow> real \<Rightarrow> KeyControls \<Rightarrow> KeyControls" where
  "updateView rc look scene timeDelta s =
     rotateView look timeDelta (translateView rc scene timeDelta s)"

subsection \<open>The global scene and the faults of a frame\<close>

text \<open>
  The functions above take the scene that the global variable \<^verbatim>\<open>scene\<close> of main.js
  holds. The variable itself is declared without a value and stays
  \<^verbatim>\<open>undefined\<close> until \<^verbatim>\<open>init\<close> assigns it: \<open>None\<close>. Reading
  \<^verbatim>\<open>scene.children\<close> then throws a TypeError, which no method of the controller
  catches. The functions below embed the same methods over the global variable, with the
  exception as a value; the controller is taken to be constructed on a camera object.
\<close>

datatype error = TypeError

definition getCollideableObjects_global :: "'g Object3D option \<Rightarrow> error + 'g Object3D list" where
  "getCollideableObjects_global global_scene =
     (case global_scene of
        None \<Rightarrow> Inl TypeError
      | Some scene \<Rightarrow>
          Inr (filter (\<lambda>child. instanceof child THREE_Mesh \<or> instanceof child THREE_Object3D)
                 (children scene)))"

definition translateViewZ_global ::
  "('g, 'h) raycast \<Rightarrow> 'g Object3D option \<Rightarrow> bool \<Rightarrow> real \<Rightarrow> KeyControls
     \<Rightarrow> error + KeyControls" where
  "translateViewZ_global rc global_scene forward units s =
     (let cameraDirVector = applyQuaternion (Vector3 0 0 (- 1)) (quaternion (camera s))
      in case getCollideableObjects_global global_scene of
           Inl e \<Rightarrow> Inl e
         | Inr modelObjects \<Rightarrow>
             (let directionVector = (if forward then cameraDirVector
                                     else multiplyScalar (clone cameraDirVector) (- 1));
                  intersections = rc (position (camera s)) directionVector 0
                                     (units + collisionMargin s) modelObjects True
              in Inr (if length intersections < 1
                      then s\<lparr>camera := translateZ (camera s)
                                          ((if forward then - 1 else 1) * units)\<rparr>
                      else s)))"

definition translateViewX_global ::
  "('g, 'h) raycast \<Rightarrow> 'g Object3D option \<Rightarrow> bool \<Rightarrow> real \<Rightarrow> KeyControls
     \<Rightarrow> error + KeyControls" where
  "translateViewX_global rc global_scene right units s =
     (let cameraDirVector = applyQuaternion (Vector3 0 0 (- 1)) (quaternion (camera s))
      in case getCollideableObjects_global global_scene of
           Inl e \<Rightarrow> Inl e
         | Inr modelObjects \<Rightarrow>
             (let upVector = Vector3 0 1 0;
                  directionVector = (if right then cross (clone cameraDirVector) upVector
                                     else cross (clone upVector) cameraDirVector);
                  intersections = rc (position (camera s)) directionVector 0
                                     (units + collisionMargin s) modelObjects True
              in Inr (if length intersections < 1
                      then s\<lparr>camera := translateX (camera s)
                                          ((if right then 1 else - 1) * units)\<rparr>
                      else s)))"

definition translateView_global ::
  "('g, 'h) raycast \<Rightarrow> 'g Object3D option \<Rightarrow> real \<Rightarrow> KeyControls \<Rightarrow> error + KeyControls" where
  "translateView_global rc global_scene timeDelta s =
     (let translationSpeed = timeDelta * movementSpeed s
      in case (if translateForward s
               then translateViewZ_global rc global_scene True translationSpeed s
               else Inr s) of
           Inl e \<Rightarrow> Inl e
         | Inr s1 \<Rightarrow>
        (case (if translateBackward s1
               then translateViewZ_global rc global_scene False translationSpeed s1
               else Inr s1) of
           Inl e \<Rightarrow> Inl e
         | Inr s2 \<Rightarrow>
        (case (if translateLeft s2
               then translateViewX_global rc global_scene False translationSpeed s2
               else Inr s2) of
           Inl e \<Rightarrow> Inl e
         | Inr s3 \<Rightarrow>
             (if translateRight s3
              then translateViewX_global rc global_scene True translationSpeed s3
              else Inr s3))))"

definition updateView_global ::
  "('g, 'h) raycast \<Rightarrow> lookAt_fn \<Rightarrow> 'g Object3D option \<Rightarrow> real \<Rightarrow> KeyControls
     \<Rightarrow> error + KeyControls" where
  "updateView_global rc look global_scene timeDelta s =
     (case translateView_global rc global_scene timeDelta s of
        Inl e \<Rightarrow> Inl e
      | Inr s1 \<Rightarrow> Inr (rotateView look timeDelta s1))"

subsection \<open>The ray cast, from the specification\<close>

text \<open>
  Modelled from the spec: THREE.Raycaster is not under src/. The spec says that the ray is
  cast "with minimum distance 0 and maximum distance distance + collisionMargin", that the
  collidables are "evaluated recursively including descendants", that the move is blocked
  "if one or more intersections are found within the probe range", and that "an empty
  collidable set or a zero-length direction vector simply yields no intersections".
  \<open>hit origin direction g\<close> gives the distances from the origin at which the ray meets
  the geometry \<open>g\<close> of one node; an intersection is represented by its distance.
\<close>

fun intersectObject ::
  "(Vector3 \<Rightarrow> Vector3 \<Rightarrow> 'g \<Rightarrow> real list) \<Rightarrow> Vector3 \<Rightarrow> Vector3 \<Rightarrow> bool \<Rightarrow> 'g Object3D
     \<Rightarrow> real list" where
  "intersectObject hit origin direction recursive (Object3D c g kids) =
     hit origin direction g @
     (if recursive then concat (map (intersectObject hit origin direction recursive) kids)
      else [])"

text \<open>Modelled from the spec: the distances of all intersections of a ray with a list of
  objects, whatever the range; "a zero-length direction vector simply yields no
  intersections".\<close>

definition ray_distances ::
  "(Vector3 \<Rightarrow> Vector3 \<Rightarrow> 'g \<Rightarrow> real list) \<Rightarrow> Vector3 \<Rightarrow> Vector3 \<Rightarrow> 'g Object3D list \<Rightarrow> bool
     \<Rightarrow> real list" where
  "ray_distances hit origin direction objects recursive =
     (if direction = Vector3 0 0 0 then []
      else concat (map (intersectObject hit origin direction recursive) objects))"

text \<open>Modelled from the spec: \<^verbatim>\<open>Raycaster.intersectObjects\<close> is missing; it
  returns the intersections "within the probe range", from \<open>near\<close> to \<open>far\<close>.\<close>

definition Raycaster_intersectObjects ::
  "(Vector3 \<Rightarrow> Vector3 \<Rightarrow> 'g \<Rightarrow> real list) \<Rightarrow> ('g, real) raycast" where
  "Raycaster_intersectObjects hit origin direction near far objects recursive =
     filter (\<lambda>d. near \<le> d \<and> d \<le> far) (ray_distances hit origin direction objects recursive)"

subsection \<open>The scene and the controller that main.js builds\<close>

text \<open>
  Modelled from the spec: \<^verbatim>\<open>scene.add\<close> is missing. It appends the object to the
  children of the scene. A directional light is created with a target, a plain Object3D
  without a parent, and the scene adds that target right after the light. \<open>none\<close> is
  the geometry of a node that has none.
\<close>

definition Scene_add :: "'g \<Rightarrow> 'g Object3D \<Rightarrow> 'g Object3D \<Rightarrow> 'g Object3D" where
  "Scene_add none scene object =
     Object3D (class_of scene) (geometry scene)
       (children scene @
          (if instanceof object THREE_DirectionalLight
           then [object, Object3D THREE_Object3D none []]
           else [object]))"

text \<open>
  \<^verbatim>\<open>init\<close> creates the scene and adds the camera to it; \<^verbatim>\<open>buildScene\<close> adds
  the floor mesh, starts loading the shed, and adds the two directional lights.
  \<open>floorGeometry\<close> is the floor's box. \<^verbatim>\<open>init\<close> also sets
  \<^verbatim>\<open>controls.noFly\<close>, a property the controller never reads; it has no field here.
\<close>

definition main_camera :: Camera where
  "main_camera = \<lparr>position = Vector3 0 55 0, quaternion = Quaternion 0 0 0 1\<rparr>"

definition main_scene :: "'g \<Rightarrow> 'g \<Rightarrow> 'g Object3D" where
  "main_scene none floorGeometry =
     (let scene = Object3D THREE_Scene none [];
          scene = Scene_add none scene (Object3D THREE_PerspectiveCamera none []);
          scene = Scene_add none scene (Object3D THREE_Mesh floorGeometry []);
          scene = Scene_add none scene (Object3D THREE_DirectionalLight none [])
      in Scene_add none scene (Object3D THREE_DirectionalLight none []))"

text \<open>
  The loader calls back after \<^verbatim>\<open>buildScene\<close> has returned, with the shed: a plain
  Object3D whose children are the meshes of the file. The callback adds it to the scene.
\<close>

definition main_scene_loaded :: "'g \<Rightarrow> 'g \<Rightarrow> 'g Object3D list \<Rightarrow> 'g Object3D" where
  "main_scene_loaded none floorGeometry shedMeshes =
     Scene_add none (main_scene none floorGeometry) (Object3D THREE_Object3D none shedMeshes)"

definition main_controls :: KeyControls where
  "main_controls =
     (new_KeyControls main_camera)\<lparr>movementSpeed := 100, lookSpeed := 0.05,
                                    invertVertical := True\<rparr>"

subsection \<open>The event loop\<close>

text \<open>
  The controller registers \<^verbatim>\<open>onKeyDown\<close> and \<^verbatim>\<open>onKeyUp\<close> on the window,
  and \<^verbatim>\<open>animate\<close> calls \<^verbatim>\<open>render\<close>, hence
  \<^verbatim>\<open>controls.updateView(clock.getDelta())\<close>, once per animation frame. A session is
  the list of these events in the order the browser delivers them; \<open>run\<close> processes
  them one after the other.
\<close>

datatype event = KeyDown nat | KeyUp nat | AnimationFrame real

fun dispatch ::
  "('g, 'h) raycast \<Rightarrow> lookAt_fn \<Rightarrow> 'g Object3D \<Rightarrow> KeyControls \<Rightarrow> event \<Rightarrow> KeyControls" where
  "dispatch rc look scene s (KeyDown keyCode) = onKeyDown keyCode s"
| "dispatch rc look scene s (KeyUp keyCode) = onKeyUp keyCode s"
| "dispatch rc look scene s (AnimationFrame timeDelta) = updateView rc look scene timeDelta s"

definition run ::
  "('g, 'h) raycast \<Rightarrow> lookAt_fn \<Rightarrow> 'g Object3D \<Rightarrow> event list \<Rightarrow> KeyControls \<Rightarrow> KeyControls" where
  "run rc look scene evs s = foldl (dispatch rc look scene) s evs"

text \<open>The controller with its eight motion flags cleared, and with its camera moved.\<close>

definition releaseAll :: "KeyControls \<Rightarrow> KeyControls" where
  "releaseAll s = s\<lparr>translateForward := False, translateBackward := False,
      translateLeft := False, translateRight := False, yawRight := False, yawLeft := False,
      pitchUp := False, pitchDown := False\<rparr>"

abbreviation with_position :: "KeyControls \<Rightarrow> Vector3 \<Rightarrow> KeyControls" where
  "with_position s p \<equiv> s\<lparr>camera := (camera s)\<lparr>position := p\<rparr>\<rparr>"

section \<open>Auxiliary facts\<close>

lemma getCollideableObjects_children: "getCollideableObjects scene = children scene"
  unfolding getCollideableObjects_def instanceof_def
  by (rule filter_True)
     (metis (full_types) THREE_class.exhaust prototype_chain.simps list.set_intros)

lemma multiplyScalar_minus_forward:
  "applyQuaternion (Vector3 0 0 1) q =
     multiplyScalar (applyQuaternion (Vector3 0 0 (- 1)) q) (- 1)"
  by (simp add: applyQuaternion_def multiplyScalar_def Let_def)

lemma multiplyScalar_multiplyScalar:
  "multiplyScalar (multiplyScalar v a) b = multiplyScalar v (a * b)"
  by (simp add: multiplyScalar_def)

lemma translateViewZ_eq:
  "translateViewZ rc scene forward units s =
     (let dir = (if forward then applyQuaternion (Vector3 0 0 (- 1)) (quaternion (camera s))
                 else multiplyScalar
                        (applyQuaternion (Vector3 0 0 (- 1)) (quaternion (camera s))) (- 1))
      in if rc (position (camera s)) dir 0 (units + collisionMargin s)
               (getCollideableObjects scene) True = []
         then with_position s (add (position (camera s)) (multiplyScalar dir units))
         else s)"
  by (cases forward)
     (simp_all add: translateViewZ_def translateZ_def translateOnAxis_def clone_def Let_def
        multiplyScalar_minus_forward multiplyScalar_multiplyScalar)

lemma translateViewX_eq:
  "translateViewX rc scene right units s =
     (let fwd = applyQuaternion (Vector3 0 0 (- 1)) (quaternion (camera s));
          dir = (if right then cross fwd (Vector3 0 1 0) else cross (Vector3 0 1 0) fwd)
      in if rc (position (camera s)) dir 0 (units + collisionMargin s)
               (getCollideableObjects scene) True = []
         then with_position s
                (add (position (camera s))
                   (multiplyScalar (applyQuaternion (Vector3 1 0 0) (quaternion (camera s)))
                      ((if right then 1 else - 1) * units)))
         else s)"
  by (cases right)
     (simp_all add: translateViewX_def translateX_def translateOnAxis_def clone_def Let_def)

lemma translateViewZ_frame:
  "translateViewZ rc scene forward units s =
     with_position s (position (camera (translateViewZ rc scene forward units s)))"
  by (simp add: translateViewZ_def translateZ_def translateOnAxis_def Let_def)

lemma translateViewX_frame:
  "translateViewX rc scene right units s =
     with_position s (position (camera (translateViewX rc scene right units s)))"
  by (simp add: translateViewX_def translateX_def translateOnAxis_def Let_def)

lemma with_position_self:
  "t = with_position s p \<Longrightarrow> t = with_position s (position (camera t))"
  by simp

lemma with_position_step:
  "t = with_position s p \<Longrightarrow> t' = with_position t p' \<Longrightarrow> t' = with_position s p'"
  by simp

lemma attemptZ_frame:
  "\<exists>p. (if b then translateViewZ rc scene forward units s else s) = with_position s p"
proof (cases b)
  case True
  then show ?thesis
    using translateViewZ_frame [of rc scene forward units s]
    by (simp only: if_True) (rule exI)
next
  case False
  have "s = with_position s (position (camera s))" by simp
  with False show ?thesis by (simp only: if_False) (rule exI)
qed

lemma attemptX_frame:
  "\<exists>p. (if b then translateViewX rc scene right units s else s) = with_position s p"
proof (cases b)
  case True
  then show ?thesis
    using translateViewX_frame [of rc scene right units s]
    by (simp only: if_True) (rule exI)
next
  case False
  have "s = with_position s (position (camera s))" by simp
  with False show ?thesis by (simp only: if_False) (rule exI)
qed

lemma translateView_frame:
  "translateView rc scene timeDelta s =
     with_position s (position (camera (translateView rc scene timeDelta s)))"
proof -
  define u where "u = timeDelta * movementSpeed s"
  define s1 where "s1 = (if translateForward s then translateViewZ rc scene True u s else s)"
  define s2 where
    "s2 = (if translateBackward s1 then translateViewZ rc scene False u s1 else s1)"
  define s3 where "s3 = (if translateLeft s2 then translateViewX rc scene False u s2 else s2)"
  define s4 where "s4 = (if translateRight s3 then translateViewX rc scene True u s3 else s3)"
  have r: "translateView rc scene timeDelta s = s4"
    by (simp only: translateView_def Let_def s4_def s3_def s2_def s1_def u_def)
  obtain p1 where p1: "s1 = with_position s p1"
    unfolding s1_def using attemptZ_frame by blast
  obtain q2 where "s2 = with_position s1 q2"
    unfolding s2_def using attemptZ_frame by blast
  from with_position_step [OF p1 this] have p2: "s2 = with_position s q2" .
  obtain q3 where "s3 = with_position s2 q3"
    unfolding s3_def using attemptX_frame by blast
  from with_position_step [OF p2 this] have p3: "s3 = with_position s q3" .
  obtain q4 where "s4 = with_position s3 q4"
    unfolding s4_def using attemptX_frame by blast
  from with_position_step [OF p3 this] have "s4 = with_position s q4" .
  from with_position_self [OF this] show ?thesis unfolding r .
qed

lemma translateView_no_flags:
  assumes "\<not> translateForward s" "\<not> translateBackward s" "\<not> translateLeft s"
    "\<not> translateRight s"
  shows "translateView rc scene timeDelta s = s"
  unfolding translateView_def Let_def using assms by (simp only: if_False)

lemma rotateView_eq:
  fixes s :: KeyControls
  defines "th \<equiv> (if yawRight s
                  then (if yawLeft s then theta s - lookSpeed s else theta s) + lookSpeed s
                  else (if yawLeft s then theta s - lookSpeed s else theta s))"
    and "la0 \<equiv> (if lookVertical s
                  then (if pitchDown s
                        then (if pitchUp s then lat s + (if invertVertical s then 1 else - 1) * 0.5
                              else lat s) - (if invertVertical s then 1 else - 1) * 0.5
                        else (if pitchUp s then lat s + (if invertVertical s then 1 else - 1) * 0.5
                              else lat s))
                  else lat s)"
  defines "la \<equiv> max (- 89) (min 89 la0)"
  defines "ph \<equiv> degToRad (90 - la)"
  defines "tg \<equiv> Vector3 (vx (position (camera s)) + 100 * sin ph * cos th)
                         (vy (position (camera s)) + 100 * cos ph)
                         (vz (position (camera s)) + 100 * sin ph * sin th)"
  shows "rotateView look timeDelta s =
           s\<lparr>theta := th, lat := la, phi := ph, target := tg,
             camera := (camera s)\<lparr>quaternion := look (position (camera s)) tg\<rparr>\<rparr>"
proof -
  define s1 where "s1 = (if yawLeft s then s\<lparr>theta := theta s - lookSpeed s\<rparr> else s)"
  define s2 where "s2 = (if yawRight s1 then s1\<lparr>theta := theta s1 + lookSpeed s\<rparr> else s1)"
  define s3 where "s3 = (if lookVertical s2
                then (let invertfactor = (if invertVertical s2 then 1 else - 1);
                          a = (if pitchUp s2 then s2\<lparr>lat := lat s2 + invertfactor * 0.5\<rparr>
                               else s2)
                      in if pitchDown a then a\<lparr>lat := lat a - invertfactor * 0.5\<rparr> else a)
                else s2)"
  define s4 where "s4 = s3\<lparr>lat := max (- 89) (min 89 (lat s3))\<rparr>"
  define s5 where "s5 = s4\<lparr>phi := degToRad (90 - lat s4)\<rparr>"
  define s6 where "s6 = s5\<lparr>target := Vector3
                  (vx (position (camera s5)) + 100 * sin (phi s5) * cos (theta s5))
                  (vy (position (camera s5)) + 100 * cos (phi s5))
                  (vz (position (camera s5)) + 100 * sin (phi s5) * sin (theta s5))\<rparr>"
  have r: "rotateView look timeDelta s = s6\<lparr>camera := lookAt look (camera s6) (target s6)\<rparr>"
    by (simp only: rotateView_def Let_def s6_def s5_def s4_def s3_def s2_def s1_def)
  have e1: "s1 = s\<lparr>theta := (if yawLeft s then theta s - lookSpeed s else theta s)\<rparr>"
    by (simp add: s1_def)
  have e2: "s2 = s\<lparr>theta := th\<rparr>"
    unfolding s2_def e1 th_def by simp
  have e3: "s3 = s\<lparr>theta := th, lat := la0\<rparr>"
    unfolding s3_def e2 la0_def Let_def by simp
  have e4: "s4 = s\<lparr>theta := th, lat := la\<rparr>"
    unfolding s4_def e3 la_def by simp
  have e5: "s5 = s\<lparr>theta := th, lat := la, phi := ph\<rparr>"
    unfolding s5_def e4 ph_def by simp
  have e6: "s6 = s\<lparr>theta := th, lat := la, phi := ph, target := tg\<rparr>"
    unfolding s6_def e5 tg_def by simp
  show ?thesis unfolding r e6 lookAt_def by simp
qed

lemma rotateView_position:
  "position (camera (rotateView look timeDelta s)) = position (camera s)"
  by (simp add: rotateView_eq)

lemma rotateView_lat_bounds:
  "- 89 \<le> lat (rotateView look timeDelta s) \<and> lat (rotateView look timeDelta s) \<le> 89"
  by (simp add: rotateView_eq)

lemma rotateView_phi:
  "phi (rotateView look timeDelta s) = degToRad (90 - lat (rotateView look timeDelta s))"
  by (simp add: rotateView_eq)

lemma rotateView_theta:
  "theta (rotateView look timeDelta s) =
     (if yawRight s
      then (if yawLeft s then theta s - lookSpeed s else theta s) + lookSpeed s
      else (if yawLeft s then theta s - lookSpeed s else theta s))"
  by (simp add: rotateView_eq)

lemma rotateView_target:
  "target (rotateView look timeDelta s) =
     Vector3 (vx (position (camera s)) + 100 * sin (phi (rotateView look timeDelta s))
                 * cos (theta (rotateView look timeDelta s)))
             (vy (position (camera s)) + 100 * cos (phi (rotateView look timeDelta s)))
             (vz (position (camera s)) + 100 * sin (phi (rotateView look timeDelta s))
                 * sin (theta (rotateView look timeDelta s)))"
  by (simp add: rotateView_eq)

lemma rotateView_quaternion:
  "quaternion (camera (rotateView look timeDelta s)) =
     look (position (camera s)) (target (rotateView look timeDelta s))"
  by (simp add: rotateView_eq)

lemma translateView_keeps:
  "lat (translateView rc scene timeDelta s) = lat s"
  "phi (translateView rc scene timeDelta s) = phi s"
  "theta (translateView rc scene timeDelta s) = theta s"
  "target (translateView rc scene timeDelta s) = target s"
  "lookSpeed (translateView rc scene timeDelta s) = lookSpeed s"
  "lookVertical (translateView rc scene timeDelta s) = lookVertical s"
  "invertVertical (translateView rc scene timeDelta s) = invertVertical s"
  "yawLeft (translateView rc scene timeDelta s) = yawLeft s"
  "yawRight (translateView rc scene timeDelta s) = yawRight s"
  "pitchUp (translateView rc scene timeDelta s) = pitchUp s"
  "pitchDown (translateView rc scene timeDelta s) = pitchDown s"
  by (subst translateView_frame, simp)+

lemma onKeyDown_lat_phi: "lat (onKeyDown k s) = lat s \<and> phi (onKeyDown k s) = phi s"
  by (simp add: onKeyDown_def)

lemma onKeyUp_lat_phi: "lat (onKeyUp k s) = lat s \<and> phi (onKeyUp k s) = phi s"
  by (simp add: onKeyUp_def)

lemma updateView_lat_phi:
  "- 89 \<le> lat (updateView rc look scene timeDelta s) \<and>
   lat (updateView rc look scene timeDelta s) \<le> 89 \<and>
   phi (updateView rc look scene timeDelta s) =
     degToRad (90 - lat (updateView rc look scene timeDelta s))"
  unfolding updateView_def using rotateView_lat_bounds rotateView_phi by blast

lemma dispatch_lat_phi:
  assumes "- 89 \<le> lat s \<and> lat s \<le> 89 \<and> phi s = degToRad (90 - lat s)"
  shows "- 89 \<le> lat (dispatch rc look scene s e) \<and> lat (dispatch rc look scene s e) \<le> 89 \<and>
         phi (dispatch rc look scene s e) = degToRad (90 - lat (dispatch rc look scene s e))"
proof (cases e)
  case (KeyDown k)
  then show ?thesis using assms onKeyDown_lat_phi [of k s] by simp
next
  case (KeyUp k)
  then show ?thesis using assms onKeyUp_lat_phi [of k s] by simp
next
  case (AnimationFrame dt)
  then show ?thesis using updateView_lat_phi [of rc look scene dt s] by simp
qed

lemma run_lat_phi:
  "- 89 \<le> lat (run rc look scene (before @ AnimationFrame timeDelta # after) s) \<and>
   lat (run rc look scene (before @ AnimationFrame timeDelta # after) s) \<le> 89 \<and>
   phi (run rc look scene (before @ AnimationFrame timeDelta # after) s) =
     degToRad (90 - lat (run rc look scene (before @ AnimationFrame timeDelta # after) s))"
proof (induction after rule: rev_induct)
  case Nil
  show ?case
    using updateView_lat_phi [of rc look scene timeDelta "foldl (dispatch rc look scene) s before"]
    by (simp add: run_def)
next
  case (snoc e es)
  have "run rc look scene (before @ AnimationFrame timeDelta # es @ [e]) s =
        dispatch rc look scene (run rc look scene (before @ AnimationFrame timeDelta # es) s) e"
    by (simp add: run_def)
  then show ?case using dispatch_lat_phi [OF snoc.IH] by simp
qed

lemma phi_range:
  assumes "- 89 \<le> la" "la \<le> 89"
  shows "degToRad 1 \<le> degToRad (90 - la) \<and> degToRad (90 - la) \<le> degToRad 179 \<and>
         degToRad (90 - la) \<noteq> 0 \<and> degToRad (90 - la) \<noteq> pi"
proof -
  have p: "0 < pi / 180" by simp
  have 1: "1 * (pi / 180) \<le> (90 - la) * (pi / 180)"
    using assms p by (intro mult_right_mono) auto
  have 2: "(90 - la) * (pi / 180) \<le> 179 * (pi / 180)"
    using assms p by (intro mult_right_mono) auto
  have 3: "179 * (pi / 180) < pi" using pi_gt_zero by simp
  have 4: "0 < 1 * (pi / 180)" by simp
  from 1 2 3 4 show ?thesis unfolding degToRad_def by linarith
qed

lemma instanceof_Object3D: "instanceof child THREE_Object3D"
  unfolding instanceof_def by (cases "class_of child") simp_all

lemma translateViewZ_keeps:
  "lat (translateViewZ rc scene forward units s) = lat s"
  "phi (translateViewZ rc scene forward units s) = phi s"
  "theta (translateViewZ rc scene forward units s) = theta s"
  "target (translateViewZ rc scene forward units s) = target s"
  "quaternion (camera (translateViewZ rc scene forward units s)) = quaternion (camera s)"
  by (subst translateViewZ_frame, simp)+

lemma translateViewX_keeps:
  "lat (translateViewX rc scene right units s) = lat s"
  "phi (translateViewX rc scene right units s) = phi s"
  "theta (translateViewX rc scene right units s) = theta s"
  "target (translateViewX rc scene right units s) = target s"
  "quaternion (camera (translateViewX rc scene right units s)) = quaternion (camera s)"
  by (subst translateViewX_frame, simp)+

lemma rotateView_frame:
  "rotateView look timeDelta s =
     s\<lparr>theta := theta (rotateView look timeDelta s),
       lat := lat (rotateView look timeDelta s),
       phi := phi (rotateView look timeDelta s),
       target := target (rotateView look timeDelta s),
       camera := (camera s)\<lparr>quaternion :=
                   quaternion (camera (rotateView look timeDelta s))\<rparr>\<rparr>"
proof -
  obtain th la ph tg q where
    "rotateView look timeDelta s =
       s\<lparr>theta := th, lat := la, phi := ph, target := tg,
         camera := (camera s)\<lparr>quaternion := q\<rparr>\<rparr>"
    using rotateView_eq [of look timeDelta s] by blast
  then show ?thesis by simp
qed

lemma releaseAll_fields:
  "\<not> translateForward (releaseAll s)" "\<not> translateBackward (releaseAll s)"
  "\<not> translateLeft (releaseAll s)" "\<not> translateRight (releaseAll s)"
  "\<not> yawLeft (releaseAll s)" "\<not> yawRight (releaseAll s)"
  "\<not> pitchUp (releaseAll s)" "\<not> pitchDown (releaseAll s)"
  "lat (releaseAll s) = lat s" "theta (releaseAll s) = theta s" "phi (releaseAll s) = phi s"
  "target (releaseAll s) = target s" "camera (releaseAll s) = camera s"
  by (simp_all add: releaseAll_def)

lemma rotateView_idle:
  assumes "\<not> yawLeft s" "\<not> yawRight s" "\<not> pitchUp s" "\<not> pitchDown s"
  shows "rotateView look timeDelta s =
     s\<lparr>theta := theta s, lat := max (- 89) (min 89 (lat s)),
       phi := degToRad (90 - max (- 89) (min 89 (lat s))),
       target := Vector3
         (vx (position (camera s))
            + 100 * sin (degToRad (90 - max (- 89) (min 89 (lat s)))) * cos (theta s))
         (vy (position (camera s)) + 100 * cos (degToRad (90 - max (- 89) (min 89 (lat s)))))
         (vz (position (camera s))
            + 100 * sin (degToRad (90 - max (- 89) (min 89 (lat s)))) * sin (theta s)),
       camera := (camera s)\<lparr>quaternion := look (position (camera s)) (Vector3
         (vx (position (camera s))
            + 100 * sin (degToRad (90 - max (- 89) (min 89 (lat s)))) * cos (theta s))
         (vy (position (camera s)) + 100 * cos (degToRad (90 - max (- 89) (min 89 (lat s)))))
         (vz (position (camera s))
            + 100 * sin (degToRad (90 - max (- 89) (min 89 (lat s)))) * sin (theta s)))\<rparr>\<rparr>"
  unfolding rotateView_eq using assms by (simp only: if_False if_cancel)

lemma updateView_idle:
  "updateView rc look scene timeDelta (releaseAll s) = rotateView look timeDelta (releaseAll s)"
  unfolding updateView_def
  by (simp only: translateView_no_flags [OF releaseAll_fields(1-4)])

lemma idle_target:
  "target (updateView rc look scene timeDelta (releaseAll s)) =
     Vector3
       (vx (position (camera s))
          + 100 * sin (degToRad (90 - max (- 89) (min 89 (lat s)))) * cos (theta s))
       (vy (position (camera s)) + 100 * cos (degToRad (90 - max (- 89) (min 89 (lat s)))))
       (vz (position (camera s))
          + 100 * sin (degToRad (90 - max (- 89) (min 89 (lat s)))) * sin (theta s))"
  unfolding updateView_idle
  by (subst rotateView_idle [OF releaseAll_fields(5-8)]) (simp add: releaseAll_fields)

lemma idle_lat_theta:
  "lat (updateView rc look scene timeDelta (releaseAll s)) = max (- 89) (min 89 (lat s))"
  "theta (updateView rc look scene timeDelta (releaseAll s)) = theta s"
  "phi (updateView rc look scene timeDelta (releaseAll s)) =
     degToRad (90 - max (- 89) (min 89 (lat s)))"
  unfolding updateView_idle
  by (subst rotateView_idle [OF releaseAll_fields(5-8)], simp add: releaseAll_fields)+

lemma idle_position:
  "position (camera (updateView rc look scene timeDelta (releaseAll s))) = position (camera s)"
  unfolding updateView_idle by (simp add: rotateView_position releaseAll_fields)

lemma updateView_target:
  "target (updateView rc look scene timeDelta s) =
     Vector3
       (vx (position (camera (updateView rc look scene timeDelta s)))
          + 100 * sin (phi (updateView rc look scene timeDelta s))
              * cos (theta (updateView rc look scene timeDelta s)))
       (vy (position (camera (updateView rc look scene timeDelta s)))
          + 100 * cos (phi (updateView rc look scene timeDelta s)))
       (vz (position (camera (updateView rc look scene timeDelta s)))
          + 100 * sin (phi (updateView rc look scene timeDelta s))
              * sin (theta (updateView rc look scene timeDelta s)))"
  unfolding updateView_def
  by (subst rotateView_target) (simp only: rotateView_position)

lemma updateView_theta:
  "theta (updateView rc look scene timeDelta s) =
     (if yawRight s
      then (if yawLeft s then theta s - lookSpeed s else theta s) + lookSpeed s
      else (if yawLeft s then theta s - lookSpeed s else theta s))"
  unfolding updateView_def rotateView_theta translateView_keeps ..

lemma updateView_quaternion:
  "quaternion (camera (updateView rc look scene timeDelta s)) =
     look (position (camera (updateView rc look scene timeDelta s)))
          (target (updateView rc look scene timeDelta s))"
  unfolding updateView_def
  by (subst rotateView_quaternion) (simp only: rotateView_position)

lemma rotateView_lat:
  "lat (rotateView look timeDelta s) =
     max (- 89) (min 89
       (if lookVertical s
        then (if pitchDown s
              then (if pitchUp s then lat s + (if invertVertical s then 1 else - 1) * 0.5
                    else lat s) - (if invertVertical s then 1 else - 1) * 0.5
              else (if pitchUp s then lat s + (if invertVertical s then 1 else - 1) * 0.5
                    else lat s))
        else lat s))"
proof -
  define la where "la = max (- 89) (min 89
       (if lookVertical s
        then (if pitchDown s
              then (if pitchUp s then lat s + (if invertVertical s then 1 else - 1) * 0.5
                    else lat s) - (if invertVertical s then 1 else - 1) * 0.5
              else (if pitchUp s then lat s + (if invertVertical s then 1 else - 1) * 0.5
                    else lat s))
        else lat s))"
  obtain th ph tg q where
    "rotateView look timeDelta s =
       s\<lparr>theta := th, lat := la, phi := ph, target := tg,
         camera := (camera s)\<lparr>quaternion := q\<rparr>\<rparr>"
    using rotateView_eq [of look timeDelta s] unfolding la_def by blast
  then have "lat (rotateView look timeDelta s) = la" by simp
  then show ?thesis unfolding la_def .
qed

lemma updateView_lat:
  "lat (updateView rc look scene timeDelta s) = lat (rotateView look 0 s)"
  unfolding updateView_def rotateView_lat translateView_keeps ..

lemma Raycaster_none_in_range:
  assumes "ds = ray_distances hit origin direction objects recursive"
    and "\<forall>d\<in>set ds. far < d"
  shows "Raycaster_intersectObjects hit origin direction near far objects recursive = []"
  unfolding Raycaster_intersectObjects_def assms(1) [symmetric]
  using assms(2) by (fastforce simp: filter_empty_conv)

lemma Raycaster_some_in_range:
  assumes "ds = ray_distances hit origin direction objects recursive"
    and "d \<in> set ds" "near \<le> d" "d \<le> far"
  shows "Raycaster_intersectObjects hit origin direction near far objects recursive \<noteq> []"
  unfolding Raycaster_intersectObjects_def assms(1) [symmetric]
  using assms(2-4) by (auto simp: filter_empty_conv)

lemma translateViewZ_forward_free:
  assumes "rc (position (camera s)) (applyQuaternion (Vector3 0 0 (- 1)) (quaternion (camera s)))
             0 (units + collisionMargin s) (getCollideableObjects scene) True = []"
  shows "translateViewZ rc scene True units s =
           with_position s (add (position (camera s))
             (multiplyScalar (applyQuaternion (Vector3 0 0 (- 1)) (quaternion (camera s)))
                units))"
  unfolding translateViewZ_eq Let_def using assms by (simp only: if_True simp_thms)

lemma translateViewZ_forward_blocked:
  assumes "rc (position (camera s)) (applyQuaternion (Vector3 0 0 (- 1)) (quaternion (camera s)))
             0 (units + collisionMargin s) (getCollideableObjects scene) True \<noteq> []"
  shows "translateViewZ rc scene True units s = s"
  unfolding translateViewZ_eq Let_def using assms by (simp only: if_True if_False simp_thms)

lemma Raycaster_no_objects:
  "Raycaster_intersectObjects hit origin direction near far [] recursive = []"
  by (simp add: Raycaster_intersectObjects_def ray_distances_def)

lemma Raycaster_zero_direction:
  "Raycaster_intersectObjects hit origin (Vector3 0 0 0) near far objects recursive = []"
  by (simp add: Raycaster_intersectObjects_def ray_distances_def)

lemma translateViewZ_free:
  assumes "rc (position (camera s))
             (if forward then applyQuaternion (Vector3 0 0 (- 1)) (quaternion (camera s))
              else multiplyScalar
                     (applyQuaternion (Vector3 0 0 (- 1)) (quaternion (camera s))) (- 1))
             0 (units + collisionMargin s) (getCollideableObjects scene) True = []"
  shows "translateViewZ rc scene forward units s =
           s\<lparr>camera := translateZ (camera s) ((if forward then - 1 else 1) * units)\<rparr>"
  unfolding translateViewZ_def Let_def clone_def using assms
  by (simp only: list.size if_True simp_thms less_numeral_extra)

lemma translateViewX_free:
  assumes "rc (position (camera s))
             (if right
              then cross (applyQuaternion (Vector3 0 0 (- 1)) (quaternion (camera s)))
                     (Vector3 0 1 0)
              else cross (Vector3 0 1 0)
                     (applyQuaternion (Vector3 0 0 (- 1)) (quaternion (camera s))))
             0 (units + collisionMargin s) (getCollideableObjects scene) True = []"
  shows "translateViewX rc scene right units s =
           s\<lparr>camera := translateX (camera s) ((if right then 1 else - 1) * units)\<rparr>"
  unfolding translateViewX_def Let_def clone_def using assms
  by (simp only: list.size if_True simp_thms less_numeral_extra)

lemma cross_up_zero:
  "cross v (Vector3 0 1 0) = Vector3 0 0 0 \<Longrightarrow> cross (Vector3 0 1 0) v = Vector3 0 0 0"
  by (simp add: cross_def)

lemma multiplyScalar_zero: "multiplyScalar (Vector3 0 0 0) a = Vector3 0 0 0"
  by (simp add: multiplyScalar_def)

lemma main_scene_children:
  "children (main_scene none floorGeometry) =
     [Object3D THREE_PerspectiveCamera none [], Object3D THREE_Mesh floorGeometry [],
      Object3D THREE_DirectionalLight none [], Object3D THREE_Object3D none [],
      Object3D THREE_DirectionalLight none [], Object3D THREE_Object3D none []]"
  by (simp add: main_scene_def Scene_add_def instanceof_def Let_def)

lemma main_scene_loaded_children:
  "children (main_scene_loaded none floorGeometry shedMeshes) =
     [Object3D THREE_PerspectiveCamera none [], Object3D THREE_Mesh floorGeometry [],
      Object3D THREE_DirectionalLight none [], Object3D THREE_Object3D none [],
      Object3D THREE_DirectionalLight none [], Object3D THREE_Object3D none [],
      Object3D THREE_Object3D none shedMeshes]"
  by (simp add: main_scene_loaded_def Scene_add_def [of _ "main_scene none floorGeometry"]
        main_scene_children instanceof_def)

lemma getCollideableObjects_global_Some:
  "getCollideableObjects_global (Some scene) = Inr (getCollideableObjects scene)"
  by (simp add: getCollideableObjects_global_def getCollideableObjects_def)

lemma getCollideableObjects_global_None:
  "getCollideableObjects_global None = Inl TypeError"
  by (simp add: getCollideableObjects_global_def)

lemma translateViewZ_global_Some:
  "translateViewZ_global rc (Some scene) forward units s =
     Inr (translateViewZ rc scene forward units s)"
  by (simp only: translateViewZ_global_def translateViewZ_def
        getCollideableObjects_global_Some Let_def sum.case)

lemma translateViewX_global_Some:
  "translateViewX_global rc (Some scene) right units s =
     Inr (translateViewX rc scene right units s)"
  by (simp only: translateViewX_global_def translateViewX_def
        getCollideableObjects_global_Some Let_def sum.case)

lemma translateViewZ_global_None:
  "translateViewZ_global rc None forward units s = Inl TypeError"
  by (simp only: translateViewZ_global_def getCollideableObjects_global_None Let_def sum.case)

lemma translateViewX_global_None:
  "translateViewX_global rc None right units s = Inl TypeError"
  by (simp only: translateViewX_global_def getCollideableObjects_global_None Let_def sum.case)

lemma attempt_Inr: "(if b then Inr x else Inr y) = Inr (if b then x else y)"
  by simp

lemma translateView_global_Some:
  "translateView_global rc (Some scene) timeDelta s =
     Inr (translateView rc scene timeDelta s)"
  by (simp only: translateView_global_def translateView_def translateViewZ_global_Some
        translateViewX_global_Some attempt_Inr Let_def sum.case)

lemma updateView_global_Some:
  "updateView_global rc look (Some scene) timeDelta s =
     Inr (updateView rc look scene timeDelta s)"
  by (simp only: updateView_global_def updateView_def translateView_global_Some sum.case)

lemma translateView_global_None:
  "translateView_global rc None timeDelta s =
     (if translateForward s \<or> translateBackward s \<or> translateLeft s \<or> translateRight s
      then Inl TypeError else Inr s)"
  unfolding translateView_global_def Let_def translateViewZ_global_None
    translateViewX_global_None
  by (cases "translateForward s"; cases "translateBackward s"; cases "translateLeft s";
      cases "translateRight s"; simp)

lemma updateView_global_None:
  "updateView_global rc look None timeDelta s =
     (if translateForward s \<or> translateBackward s \<or> translateLeft s \<or> translateRight s
      then Inl TypeError else Inr (rotateView look timeDelta s))"
  unfolding updateView_global_def translateView_global_None
  by (cases "translateForward s \<or> translateBackward s \<or> translateLeft s \<or> translateRight s")
     (simp_all only: if_True if_False sum.case)

section \<open>The claims\<close>

text \<open>
  C1. Every attempted translation casts a ray from the camera's current position along the
  requested direction (the camera's forward vector or its negation; the cross product of
  the forward vector with the world up vector, in the order the side asks for), with near
  distance \<open>0\<close> and far distance \<open>units + collisionMargin\<close>, against the collidable
  set and its descendants. When the ray cast returns no intersection the camera moves by
  exactly \<open>units\<close> along the probe direction (forward and backward) or by the signed
  distance along its local X axis (left and right); when it returns one or more the
  controller is left as it was. A frame attempts forward, backward, left and right in this
  order, for the flags that are set, each from the position the previous attempt left.
\<close>

theorem translation_gated_by_probe:
  "translateViewZ rc scene forward units s =
     (let dir = (if forward then applyQuaternion (Vector3 0 0 (- 1)) (quaternion (camera s))
                 else multiplyScalar
                        (applyQuaternion (Vector3 0 0 (- 1)) (quaternion (camera s))) (- 1))
      in if rc (position (camera s)) dir 0 (units + collisionMargin s)
               (getCollideableObjects scene) True = []
         then with_position s (add (position (camera s)) (multiplyScalar dir units))
         else s) \<and>
   translateViewX rc scene right units s =
     (let fwd = applyQuaternion (Vector3 0 0 (- 1)) (quaternion (camera s));
          dir = (if right then cross fwd (Vector3 0 1 0) else cross (Vector3 0 1 0) fwd)
      in if rc (position (camera s)) dir 0 (units + collisionMargin s)
               (getCollideableObjects scene) True = []
         then with_position s
                (add (position (camera s))
                   (multiplyScalar (applyQuaternion (Vector3 1 0 0) (quaternion (camera s)))
                      ((if right then 1 else - 1) * units)))
         else s) \<and>
   translateView rc scene timeDelta s =
     (let units = timeDelta * movementSpeed s;
          s1 = (if translateForward s then translateViewZ rc scene True units s else s);
          s2 = (if translateBackward s then translateViewZ rc scene False units s1 else s1);
          s3 = (if translateLeft s then translateViewX rc scene False units s2 else s2)
      in if translateRight s then translateViewX rc scene True units s3 else s3)"
proof -
  define u where "u = timeDelta * movementSpeed s"
  define s1 where "s1 = (if translateForward s then translateViewZ rc scene True u s else s)"
  define s2 where
    "s2 = (if translateBackward s then translateViewZ rc scene False u s1 else s1)"
  define s3 where "s3 = (if translateLeft s then translateViewX rc scene False u s2 else s2)"
  have f1: "translateBackward s1 = translateBackward s" "translateLeft s1 = translateLeft s"
    "translateRight s1 = translateRight s"
    unfolding s1_def by (cases "translateForward s"; subst translateViewZ_frame; simp)+
  have f2: "translateLeft s2 = translateLeft s" "translateRight s2 = translateRight s"
    unfolding s2_def using f1
    by (cases "translateBackward s"; subst translateViewZ_frame; simp)+
  have f3: "translateRight s3 = translateRight s"
    unfolding s3_def using f2
    by (cases "translateLeft s"; subst translateViewX_frame; simp)
  have "translateView rc scene timeDelta s =
          (if translateRight s then translateViewX rc scene True u s3 else s3)"
    unfolding translateView_def Let_def
    by (simp only: u_def [symmetric] s1_def [symmetric] f1 s2_def [symmetric] f2
          s3_def [symmetric] f3)
  then have "translateView rc scene timeDelta s =
     (let units = timeDelta * movementSpeed s;
          s1 = (if translateForward s then translateViewZ rc scene True units s else s);
          s2 = (if translateBackward s then translateViewZ rc scene False units s1 else s1);
          s3 = (if translateLeft s then translateViewX rc scene False units s2 else s2)
      in if translateRight s then translateViewX rc scene True units s3 else s3)"
    by (simp only: Let_def u_def s1_def s2_def s3_def)
  with translateViewZ_eq [of rc scene forward units s]
    translateViewX_eq [of rc scene right units s]
  show ?thesis by (intro conjI)
qed

text \<open>
  C3. After every invocation of \<^verbatim>\<open>updateView\<close>, whatever the flags and however many
  frames and key events came before or come after it, the latitude lies in \<open>[-89, 89]\<close>
  and \<open>phi = degToRad (90 - lat)\<close>; hence \<open>phi\<close> lies between \<open>degToRad 1\<close> and
  \<open>degToRad 179\<close> and is neither \<open>0\<close> nor \<open>pi\<close>. The starting controller \<open>s\<close>
  is arbitrary.
\<close>

theorem updateView_lat_phi_invariant:
  fixes rc :: "('g, 'h) raycast" and look scene before timeDelta after s
  defines "s' \<equiv> run rc look scene (before @ AnimationFrame timeDelta # after) s"
  shows "- 89 \<le> lat s' \<and> lat s' \<le> 89 \<and> phi s' = degToRad (90 - lat s') \<and>
         degToRad 1 \<le> phi s' \<and> phi s' \<le> degToRad 179 \<and> phi s' \<noteq> 0 \<and> phi s' \<noteq> pi"
proof -
  have a: "- 89 \<le> lat s' \<and> lat s' \<le> 89 \<and> phi s' = degToRad (90 - lat s')"
    unfolding s'_def by (rule run_lat_phi)
  with phi_range [of "lat s'"] show ?thesis by simp
qed

text \<open>
  C7. A key-up event of a key bound to a translation flag (W and up for forward, S and down
  for backward, A for left, D for right) leaves that flag false, also when the other key
  bound to the same flag went down earlier and has not been released.
\<close>

theorem keyUp_clears_translation_flag:
  "\<not> translateForward (onKeyUp 87 s) \<and> \<not> translateForward (onKeyUp 38 s) \<and>
   \<not> translateBackward (onKeyUp 83 s) \<and> \<not> translateBackward (onKeyUp 40 s) \<and>
   \<not> translateLeft (onKeyUp 65 s) \<and> \<not> translateRight (onKeyUp 68 s) \<and>
   \<not> translateForward (onKeyUp 87 (onKeyDown 38 (onKeyDown 87 s))) \<and>
   \<not> translateForward (onKeyUp 38 (onKeyDown 87 (onKeyDown 38 s))) \<and>
   \<not> translateBackward (onKeyUp 83 (onKeyDown 40 (onKeyDown 83 s))) \<and>
   \<not> translateBackward (onKeyUp 40 (onKeyDown 83 (onKeyDown 40 s)))"
  by (simp add: onKeyUp_def)

text \<open>
  C5, as stated, fails: the key-up handler has its own case for key code 27 and toggles
  \<^verbatim>\<open>freeze\<close> as well. On a fresh controller the key-down event sets the flag and
  the key-up event of the same press clears it again.
\<close>

theorem freeze_toggled_on_keyUp:
  "freeze (onKeyDown 27 (new_KeyControls main_camera)) = Some True \<and>
   freeze (onKeyUp 27 (onKeyDown 27 (new_KeyControls main_camera))) = Some False \<and>
   freeze (onKeyUp 27 (onKeyDown 27 (new_KeyControls main_camera)))
     \<noteq> freeze (onKeyDown 27 (new_KeyControls main_camera))"
  by (simp add: onKeyUp_def onKeyDown_def new_KeyControls_def js_not_def truthy_def)

text \<open>
  C5, amended. The freeze flag is toggled by the key-down event of key code 27 and also by
  its key-up event, and by no other key: each of the two events negates the truthiness of
  the flag, so one full press-and-release toggles it twice and restores its truth value,
  as do two key-down events.
\<close>

theorem freeze_toggled_on_both_events:
  "freeze (onKeyDown 27 s) = Some (\<not> truthy (freeze s)) \<and>
   freeze (onKeyUp 27 s) = Some (\<not> truthy (freeze s)) \<and>
   truthy (freeze (onKeyUp 27 (onKeyDown 27 s))) = truthy (freeze s) \<and>
   truthy (freeze (onKeyDown 27 (onKeyDown 27 s))) = truthy (freeze s) \<and>
   (keyCode \<noteq> 27 \<longrightarrow>
      freeze (onKeyDown keyCode s) = freeze s \<and> freeze (onKeyUp keyCode s) = freeze s)"
  by (simp add: onKeyUp_def onKeyDown_def js_not_def truthy_def)

theorem freeze_toggled_on_both_events_witness:
  "(87::nat) \<noteq> 27 \<and>
   freeze (onKeyDown 27 main_controls) = Some True \<and>
   freeze (onKeyUp 27 main_controls) = Some True \<and>
   \<not> truthy (freeze (onKeyUp 27 (onKeyDown 27 main_controls))) \<and>
   \<not> truthy (freeze (onKeyDown 27 (onKeyDown 27 main_controls))) \<and>
   freeze (onKeyDown 87 main_controls) = None \<and> freeze (onKeyUp 87 main_controls) = None"
  using freeze_toggled_on_both_events [of main_controls 87]
  by (simp add: main_controls_def new_KeyControls_def truthy_def)

text \<open>
  C9. The filter of \<^verbatim>\<open>getCollideableObjects\<close> keeps every child: each class of
  three.js that a scene child can have has \<^verbatim>\<open>THREE.Object3D\<close> on its prototype
  chain, so the second disjunct of the predicate always holds. The collidable set is the
  list of the scene's top-level children; for the scene that main.js builds these are the
  camera itself, the floor, and each of the two lights followed by its target, and after
  the loader has called back the shed as well. Every probe hands this list to the ray cast
  with the recursive flag set.
\<close>

theorem collidable_filter_vacuous:
  "instanceof child THREE_Object3D \<and>
   getCollideableObjects scene = children scene \<and>
   getCollideableObjects (main_scene none floorGeometry) =
     [Object3D THREE_PerspectiveCamera none [], Object3D THREE_Mesh floorGeometry [],
      Object3D THREE_DirectionalLight none [], Object3D THREE_Object3D none [],
      Object3D THREE_DirectionalLight none [], Object3D THREE_Object3D none []] \<and>
   getCollideableObjects (main_scene_loaded none floorGeometry shedMeshes) =
     [Object3D THREE_PerspectiveCamera none [], Object3D THREE_Mesh floorGeometry [],
      Object3D THREE_DirectionalLight none [], Object3D THREE_Object3D none [],
      Object3D THREE_DirectionalLight none [], Object3D THREE_Object3D none [],
      Object3D THREE_Object3D none shedMeshes] \<and>
   translateViewZ rc scene forward units s =
     (if rc (position (camera s))
           (if forward then applyQuaternion (Vector3 0 0 (- 1)) (quaternion (camera s))
            else multiplyScalar
                   (applyQuaternion (Vector3 0 0 (- 1)) (quaternion (camera s))) (- 1))
           0 (units + collisionMargin s) (children scene) True = []
      then s\<lparr>camera := translateZ (camera s) ((if forward then - 1 else 1) * units)\<rparr>
      else s) \<and>
   translateViewX rc scene right units s =
     (if rc (position (camera s))
           (if right
            then cross (applyQuaternion (Vector3 0 0 (- 1)) (quaternion (camera s)))
                   (Vector3 0 1 0)
            else cross (Vector3 0 1 0)
                   (applyQuaternion (Vector3 0 0 (- 1)) (quaternion (camera s))))
           0 (units + collisionMargin s) (children scene) True = []
      then s\<lparr>camera := translateX (camera s) ((if right then 1 else - 1) * units)\<rparr>
      else s)"
proof (intro conjI)
  show "instanceof child THREE_Object3D" by (rule instanceof_Object3D)
  show "getCollideableObjects scene = children scene" by (rule getCollideableObjects_children)
  show "getCollideableObjects (main_scene none floorGeometry) =
     [Object3D THREE_PerspectiveCamera none [], Object3D THREE_Mesh floorGeometry [],
      Object3D THREE_DirectionalLight none [], Object3D THREE_Object3D none [],
      Object3D THREE_DirectionalLight none [], Object3D THREE_Object3D none []]"
    by (simp only: getCollideableObjects_children main_scene_children)
  show "getCollideableObjects (main_scene_loaded none floorGeometry shedMeshes) =
     [Object3D THREE_PerspectiveCamera none [], Object3D THREE_Mesh floorGeometry [],
      Object3D THREE_DirectionalLight none [], Object3D THREE_Object3D none [],
      Object3D THREE_DirectionalLight none [], Object3D THREE_Object3D none [],
      Object3D THREE_Object3D none shedMeshes]"
    by (simp only: getCollideableObjects_children main_scene_loaded_children)
  show "translateViewZ rc scene forward units s =
     (if rc (position (camera s))
           (if forward then applyQuaternion (Vector3 0 0 (- 1)) (quaternion (camera s))
            else multiplyScalar
                   (applyQuaternion (Vector3 0 0 (- 1)) (quaternion (camera s))) (- 1))
           0 (units + collisionMargin s) (children scene) True = []
      then s\<lparr>camera := translateZ (camera s) ((if forward then - 1 else 1) * units)\<rparr>
      else s)"
    by (simp add: translateViewZ_def getCollideableObjects_children clone_def Let_def)
  show "translateViewX rc scene right units s =
     (if rc (position (camera s))
           (if right
            then cross (applyQuaternion (Vector3 0 0 (- 1)) (quaternion (camera s)))
                   (Vector3 0 1 0)
            else cross (Vector3 0 1 0)
                   (applyQuaternion (Vector3 0 0 (- 1)) (quaternion (camera s))))
           0 (units + collisionMargin s) (children scene) True = []
      then s\<lparr>camera := translateX (camera s) ((if right then 1 else - 1) * units)\<rparr>
      else s)"
    by (simp add: translateViewX_def getCollideableObjects_children clone_def Let_def)
qed

text \<open>
  C10. \<^verbatim>\<open>rotateView\<close> leaves the camera position as it was and writes only
  \<open>theta\<close>, \<open>lat\<close>, \<open>phi\<close>, the look target and the camera's quaternion;
  \<^verbatim>\<open>translateViewZ\<close> and \<^verbatim>\<open>translateViewX\<close> leave \<open>lat\<close>, \<open>phi\<close>,
  \<open>theta\<close> and the look target as they were and write only the camera position.
\<close>

theorem rotation_and_translation_frames:
  "position (camera (rotateView look timeDelta s)) = position (camera s) \<and>
   rotateView look timeDelta s =
     s\<lparr>theta := theta (rotateView look timeDelta s),
       lat := lat (rotateView look timeDelta s),
       phi := phi (rotateView look timeDelta s),
       target := target (rotateView look timeDelta s),
       camera := (camera s)\<lparr>quaternion :=
                   quaternion (camera (rotateView look timeDelta s))\<rparr>\<rparr> \<and>
   lat (translateViewZ rc scene forward units s) = lat s \<and>
   phi (translateViewZ rc scene forward units s) = phi s \<and>
   theta (translateViewZ rc scene forward units s) = theta s \<and>
   target (translateViewZ rc scene forward units s) = target s \<and>
   translateViewZ rc scene forward units s =
     with_position s (position (camera (translateViewZ rc scene forward units s))) \<and>
   lat (translateViewX rc scene right units s) = lat s \<and>
   phi (translateViewX rc scene right units s) = phi s \<and>
   theta (translateViewX rc scene right units s) = theta s \<and>
   target (translateViewX rc scene right units s) = target s \<and>
   translateViewX rc scene right units s =
     with_position s (position (camera (translateViewX rc scene right units s)))"
  using rotateView_position [of look timeDelta s] rotateView_frame [of look timeDelta s]
    translateViewZ_keeps [of rc scene forward units s]
    translateViewZ_frame [of rc scene forward units s]
    translateViewX_keeps [of rc scene right units s]
    translateViewX_frame [of rc scene right units s]
  by (intro conjI)

text \<open>
  C4. \<^verbatim>\<open>updateView(0)\<close> on a controller whose eight motion flags are all false
  leaves the camera position as it was, and the look target it computes is a function of
  the current \<open>lat\<close>, \<open>theta\<close> and camera position only. When the controller comes out
  of a previous frame (whatever flags and elapsed time that frame had) and all keys have
  been released since, the call recomputes exactly the previous frame's look target, and
  leaves \<open>lat\<close>, \<open>theta\<close> and \<open>phi\<close> as they were.
\<close>

theorem updateView_zero_idle:
  fixes rc :: "('g, 'h) raycast" and look scene timeDelta s0 s
  defines "s1 \<equiv> updateView rc look scene timeDelta s0"
  defines "s2 \<equiv> updateView rc look scene 0 (releaseAll s1)"
  defines "t \<equiv> updateView rc look scene 0 (releaseAll s)"
  shows "position (camera t) = position (camera s) \<and>
    target t = Vector3
       (vx (position (camera s))
          + 100 * sin (degToRad (90 - max (- 89) (min 89 (lat s)))) * cos (theta s))
       (vy (position (camera s)) + 100 * cos (degToRad (90 - max (- 89) (min 89 (lat s)))))
       (vz (position (camera s))
          + 100 * sin (degToRad (90 - max (- 89) (min 89 (lat s)))) * sin (theta s)) \<and>
    position (camera s2) = position (camera s1) \<and> target s2 = target s1 \<and>
    lat s2 = lat s1 \<and> theta s2 = theta s1 \<and> phi s2 = phi s1"
proof -
  have b: "- 89 \<le> lat s1 \<and> lat s1 \<le> 89 \<and> phi s1 = degToRad (90 - lat s1)"
    unfolding s1_def by (rule updateView_lat_phi)
  then have c: "max (- 89) (min 89 (lat s1)) = lat s1" by simp
  have p: "position (camera s2) = position (camera s1)"
    unfolding s2_def by (rule idle_position)
  have l: "lat s2 = lat s1" unfolding s2_def idle_lat_theta c ..
  have th: "theta s2 = theta s1" unfolding s2_def idle_lat_theta ..
  have ph: "phi s2 = phi s1" unfolding s2_def idle_lat_theta c using b by simp
  have "target s2 = Vector3
       (vx (position (camera s1)) + 100 * sin (phi s1) * cos (theta s1))
       (vy (position (camera s1)) + 100 * cos (phi s1))
       (vz (position (camera s1)) + 100 * sin (phi s1) * sin (theta s1))"
    unfolding s2_def idle_target c using b by simp
  also have "\<dots> = target s1"
    unfolding s1_def by (rule updateView_target [symmetric])
  finally have tg: "target s2 = target s1" .
  show ?thesis
    unfolding t_def using p tg l th ph idle_position idle_target by (intro conjI)
qed

text \<open>
  C6. In every invocation of \<^verbatim>\<open>updateView\<close> the yaw-left flag subtracts exactly
  \<open>lookSpeed\<close> from \<open>theta\<close> and the yaw-right flag adds exactly \<open>lookSpeed\<close> to
  it, whatever the elapsed time. The rotation does not depend on the ray cast: with another
  ray cast, another scene and another elapsed time, \<open>theta\<close>, \<open>lat\<close> and \<open>phi\<close>
  come out the same, the look target is always recomputed around the camera's position
  after the translation, and the camera is always reoriented towards it.
\<close>

theorem yaw_step_unconditional:
  fixes rc :: "('g, 'h) raycast" and rc' :: "('g, 'h) raycast"
    and look scene scene' timeDelta timeDelta' s
  defines "s' \<equiv> updateView rc look scene timeDelta s"
  shows "theta s' = theta s - (if yawLeft s then lookSpeed s else 0)
                            + (if yawRight s then lookSpeed s else 0) \<and>
    theta s' = theta (updateView rc' look scene' timeDelta' s) \<and>
    lat s' = lat (updateView rc' look scene' timeDelta' s) \<and>
    phi s' = phi (updateView rc' look scene' timeDelta' s) \<and>
    target s' = Vector3
       (vx (position (camera s')) + 100 * sin (phi s') * cos (theta s'))
       (vy (position (camera s')) + 100 * cos (phi s'))
       (vz (position (camera s')) + 100 * sin (phi s') * sin (theta s')) \<and>
    quaternion (camera s') = look (position (camera s')) (target s')"
proof (intro conjI)
  show "theta s' = theta s - (if yawLeft s then lookSpeed s else 0)
                            + (if yawRight s then lookSpeed s else 0)"
    unfolding s'_def updateView_theta by simp
  show "theta s' = theta (updateView rc' look scene' timeDelta' s)"
    unfolding s'_def updateView_theta ..
  show l: "lat s' = lat (updateView rc' look scene' timeDelta' s)"
    unfolding s'_def updateView_lat ..
  have "phi s' = degToRad (90 - lat s')"
    unfolding s'_def using updateView_lat_phi by blast
  also have "\<dots> = degToRad (90 - lat (updateView rc' look scene' timeDelta' s))"
    using l by simp
  also have "\<dots> = phi (updateView rc' look scene' timeDelta' s)"
    using updateView_lat_phi [of rc' look scene' timeDelta' s] by simp
  finally show "phi s' = phi (updateView rc' look scene' timeDelta' s)" .
  show "target s' = Vector3
       (vx (position (camera s')) + 100 * sin (phi s') * cos (theta s'))
       (vy (position (camera s')) + 100 * cos (phi s'))
       (vz (position (camera s')) + 100 * sin (phi s') * sin (theta s'))"
    unfolding s'_def by (rule updateView_target)
  show "quaternion (camera s') = look (position (camera s')) (target s')"
    unfolding s'_def by (rule updateView_quaternion)
qed

text \<open>
  C2. Take a forward translation of length \<open>distance\<close>, against the ray cast the
  specification describes, and let the nearest intersection of the forward ray with the
  collidable set lie at \<open>nearest\<close>. When \<open>nearest = distance + collisionMargin + \<epsilon>\<close>
  with \<open>\<epsilon> > 0\<close> the camera moves the full distance along the forward vector; when
  \<open>nearest = distance + collisionMargin - \<epsilon>\<close> with
  \<open>0 < \<epsilon> \<le> distance + collisionMargin\<close> the controller is left as it was.
\<close>

theorem forward_probe_boundary:
  fixes hit :: "Vector3 \<Rightarrow> Vector3 \<Rightarrow> 'g \<Rightarrow> real list"
  assumes ds: "ds = ray_distances hit (position (camera s))
                  (applyQuaternion (Vector3 0 0 (- 1)) (quaternion (camera s)))
                  (getCollideableObjects scene) True"
    and ne: "ds \<noteq> []"
    and nearest: "nearest = Min (set ds)"
  shows "(0 < \<epsilon> \<and> nearest = distance + collisionMargin s + \<epsilon> \<longrightarrow>
            translateViewZ (Raycaster_intersectObjects hit) scene True distance s =
              with_position s (add (position (camera s))
                (multiplyScalar (applyQuaternion (Vector3 0 0 (- 1)) (quaternion (camera s)))
                   distance))) \<and>
         (0 < \<epsilon> \<and> \<epsilon> \<le> distance + collisionMargin s \<and>
          nearest = distance + collisionMargin s - \<epsilon> \<longrightarrow>
            translateViewZ (Raycaster_intersectObjects hit) scene True distance s = s)"
proof (intro conjI impI)
  assume a: "0 < \<epsilon> \<and> nearest = distance + collisionMargin s + \<epsilon>"
  have "\<forall>d\<in>set ds. distance + collisionMargin s < d"
  proof
    fix d assume "d \<in> set ds"
    then have "Min (set ds) \<le> d" by simp
    with a nearest show "distance + collisionMargin s < d" by linarith
  qed
  from Raycaster_none_in_range [OF ds this]
  show "translateViewZ (Raycaster_intersectObjects hit) scene True distance s =
              with_position s (add (position (camera s))
                (multiplyScalar (applyQuaternion (Vector3 0 0 (- 1)) (quaternion (camera s)))
                   distance))"
    by (rule translateViewZ_forward_free)
next
  assume a: "0 < \<epsilon> \<and> \<epsilon> \<le> distance + collisionMargin s \<and>
          nearest = distance + collisionMargin s - \<epsilon>"
  have m: "Min (set ds) \<in> set ds" using ne by (intro Min_in) simp_all
  have "0 \<le> Min (set ds)" "Min (set ds) \<le> distance + collisionMargin s"
    using a nearest by linarith+
  from Raycaster_some_in_range [OF ds m this]
  show "translateViewZ (Raycaster_intersectObjects hit) scene True distance s = s"
    by (rule translateViewZ_forward_blocked)
qed

text \<open>
  The scenario of the specification: an obstacle 50 units ahead and a margin of 5. A move
  of 40 units succeeds, a move of 50 units is blocked.
\<close>

theorem forward_probe_boundary_witness:
  "translateViewZ (Raycaster_intersectObjects (\<lambda>origin direction g. g))
      (main_scene [] [50]) True 40 main_controls =
     with_position main_controls (Vector3 0 55 (- 40)) \<and>
   translateViewZ (Raycaster_intersectObjects (\<lambda>origin direction g. g))
      (main_scene [] [50]) True 50 main_controls = main_controls"
proof -
  have ds: "[50] = ray_distances (\<lambda>origin direction g. g) (position (camera main_controls))
                  (applyQuaternion (Vector3 0 0 (- 1)) (quaternion (camera main_controls)))
                  (getCollideableObjects (main_scene [] [50])) True"
    by (simp add: ray_distances_def getCollideableObjects_children main_scene_children
          main_controls_def new_KeyControls_def main_camera_def applyQuaternion_def Let_def)
  have ne: "[50::real] \<noteq> []" by simp
  have n: "(50::real) = Min (set [50])" by simp
  have m: "collisionMargin main_controls = 5"
    by (simp add: main_controls_def new_KeyControls_def)
  have p: "add (position (camera main_controls))
             (multiplyScalar
                (applyQuaternion (Vector3 0 0 (- 1)) (quaternion (camera main_controls))) 40) =
           Vector3 0 55 (- 40)"
    by (simp add: main_controls_def new_KeyControls_def main_camera_def applyQuaternion_def
          multiplyScalar_def add_def Let_def)
  show ?thesis
    using forward_probe_boundary [OF ds ne n, of 5 40]
      forward_probe_boundary [OF ds ne n, of 5 50]
    by (simp add: m p)
qed

text \<open>
  C8, as stated, fails in its second half: a probe can raise a fault. While the global
  variable \<^verbatim>\<open>scene\<close> has no value, \<^verbatim>\<open>getCollideableObjects\<close> throws a
  TypeError, and every attempted translation, and every frame with a translation flag
  set, passes it on to its caller.
\<close>

theorem probe_faults_without_scene:
  "translateViewZ_global (Raycaster_intersectObjects (\<lambda>origin direction g. g))
      (None :: real list Object3D option) True 10 main_controls = Inl TypeError \<and>
   translateViewX_global (Raycaster_intersectObjects (\<lambda>origin direction g. g))
      (None :: real list Object3D option) True 10 main_controls = Inl TypeError \<and>
   updateView_global (Raycaster_intersectObjects (\<lambda>origin direction g. g))
      (\<lambda>eye point. Quaternion 0 0 0 1) (None :: real list Object3D option) 1
      (onKeyDown 87 main_controls) = Inl TypeError"
  by (simp add: translateViewZ_global_None translateViewX_global_None updateView_global_None
        onKeyDown_def)

text \<open>
  C8, amended. Against the ray cast the specification describes, an empty collidable set
  or a zero-length probe direction yields no intersection, and the attempted translation
  is applied as if nothing were in the way, in both directions of both axes. Whenever the
  global scene is set, no probe, no translation and no frame raises a fault: each returns
  the controller that the fault-free embedding computes. While the global scene is unset,
  every attempted translation raises a TypeError before anything is written, and a frame
  raises it exactly when one of the four translation flags is set; otherwise the frame
  only rotates.
\<close>

theorem degenerate_probe_unobstructed:
  fixes hit :: "Vector3 \<Rightarrow> Vector3 \<Rightarrow> 'g \<Rightarrow> real list" and rc :: "('g, 'h) raycast"
  shows
    "(getCollideableObjects scene = [] \<or>
      applyQuaternion (Vector3 0 0 (- 1)) (quaternion (camera s)) = Vector3 0 0 0 \<longrightarrow>
        translateViewZ_global (Raycaster_intersectObjects hit) (Some scene) forward units s =
          Inr (s\<lparr>camera := translateZ (camera s) ((if forward then - 1 else 1) * units)\<rparr>)) \<and>
     (getCollideableObjects scene = [] \<or>
      cross (applyQuaternion (Vector3 0 0 (- 1)) (quaternion (camera s))) (Vector3 0 1 0)
        = Vector3 0 0 0 \<longrightarrow>
        translateViewX_global (Raycaster_intersectObjects hit) (Some scene) right units s =
          Inr (s\<lparr>camera := translateX (camera s) ((if right then 1 else - 1) * units)\<rparr>)) \<and>
     translateViewZ_global rc (Some scene) forward units s =
       Inr (translateViewZ rc scene forward units s) \<and>
     translateViewX_global rc (Some scene) right units s =
       Inr (translateViewX rc scene right units s) \<and>
     translateView_global rc (Some scene) timeDelta s =
       Inr (translateView rc scene timeDelta s) \<and>
     updateView_global rc look (Some scene) timeDelta s =
       Inr (updateView rc look scene timeDelta s) \<and>
     translateViewZ_global rc None forward units s = Inl TypeError \<and>
     translateViewX_global rc None right units s = Inl TypeError \<and>
     updateView_global rc look None timeDelta s =
       (if translateForward s \<or> translateBackward s \<or> translateLeft s \<or> translateRight s
        then Inl TypeError else Inr (rotateView look timeDelta s))"
proof (intro conjI impI)
  assume "getCollideableObjects scene = [] \<or>
          applyQuaternion (Vector3 0 0 (- 1)) (quaternion (camera s)) = Vector3 0 0 0"
  then have "Raycaster_intersectObjects hit (position (camera s))
             (if forward then applyQuaternion (Vector3 0 0 (- 1)) (quaternion (camera s))
              else multiplyScalar
                     (applyQuaternion (Vector3 0 0 (- 1)) (quaternion (camera s))) (- 1))
             0 (units + collisionMargin s) (getCollideableObjects scene) True = []"
    by (cases forward)
       (auto simp: Raycaster_no_objects Raycaster_zero_direction multiplyScalar_zero)
  then have "translateViewZ (Raycaster_intersectObjects hit) scene forward units s =
              s\<lparr>camera := translateZ (camera s) ((if forward then - 1 else 1) * units)\<rparr>"
    by (rule translateViewZ_free)
  then show "translateViewZ_global (Raycaster_intersectObjects hit) (Some scene) forward units s =
          Inr (s\<lparr>camera := translateZ (camera s) ((if forward then - 1 else 1) * units)\<rparr>)"
    by (simp only: translateViewZ_global_Some)
next
  assume "getCollideableObjects scene = [] \<or>
          cross (applyQuaternion (Vector3 0 0 (- 1)) (quaternion (camera s))) (Vector3 0 1 0)
            = Vector3 0 0 0"
  then have "Raycaster_intersectObjects hit (position (camera s))
             (if right
              then cross (applyQuaternion (Vector3 0 0 (- 1)) (quaternion (camera s)))
                     (Vector3 0 1 0)
              else cross (Vector3 0 1 0)
                     (applyQuaternion (Vector3 0 0 (- 1)) (quaternion (camera s))))
             0 (units + collisionMargin s) (getCollideableObjects scene) True = []"
    by (cases right)
       (auto simp: Raycaster_no_objects Raycaster_zero_direction dest: cross_up_zero)
  then have "translateViewX (Raycaster_intersectObjects hit) scene right units s =
              s\<lparr>camera := translateX (camera s) ((if right then 1 else - 1) * units)\<rparr>"
    by (rule translateViewX_free)
  then show "translateViewX_global (Raycaster_intersectObjects hit) (Some scene) right units s =
          Inr (s\<lparr>camera := translateX (camera s) ((if right then 1 else - 1) * units)\<rparr>)"
    by (simp only: translateViewX_global_Some)
qed (rule translateViewZ_global_Some translateViewX_global_Some translateView_global_Some
       updateView_global_Some translateViewZ_global_None translateViewX_global_None
       updateView_global_None)+

text \<open>
  An empty scene; a camera looking straight up in the scene of main.js, whose sideways
  probe direction is the zero vector; a camera with the zero quaternion, whose forward
  vector is the zero vector; and a frame with the forward key down before the scene is set.
\<close>

theorem degenerate_probe_unobstructed_witness:
  "translateViewZ_global (Raycaster_intersectObjects (\<lambda>origin direction g. g))
      (Some (Object3D THREE_Scene [] [])) True 10 main_controls =
     Inr (with_position main_controls (Vector3 0 55 (- 10))) \<and>
   translateViewX_global (Raycaster_intersectObjects (\<lambda>origin direction g. g))
      (Some (Object3D THREE_Scene [] [])) True 10 main_controls =
     Inr (with_position main_controls (Vector3 10 55 0)) \<and>
   translateViewX_global (Raycaster_intersectObjects (\<lambda>origin direction g. g))
      (Some (main_scene [] [1])) True 10
      (main_controls\<lparr>camera := \<lparr>position = Vector3 0 55 0,
                                 quaternion = Quaternion 1 0 0 1\<rparr>\<rparr>) =
     Inr (main_controls\<lparr>camera := \<lparr>position = Vector3 20 55 0,
                                     quaternion = Quaternion 1 0 0 1\<rparr>\<rparr>) \<and>
   translateViewZ_global (Raycaster_intersectObjects (\<lambda>origin direction g. g))
      (Some (main_scene [] [1])) False 10
      (main_controls\<lparr>camera := \<lparr>position = Vector3 0 55 0,
                                 quaternion = Quaternion 0 0 0 0\<rparr>\<rparr>) =
     Inr (main_controls\<lparr>camera := \<lparr>position = Vector3 0 55 0,
                                     quaternion = Quaternion 0 0 0 0\<rparr>\<rparr>) \<and>
   updateView_global (Raycaster_intersectObjects (\<lambda>origin direction g. g))
      (\<lambda>eye point. Quaternion 0 0 0 1) (None :: real list Object3D option) 1
      (onKeyDown 87 main_controls) = Inl TypeError"
  using
    degenerate_probe_unobstructed [of "Object3D THREE_Scene [] []" main_controls
      "\<lambda>origin direction g. g" True 10 True
      "Raycaster_intersectObjects (\<lambda>origin direction g. g)" 1 "\<lambda>eye point. Quaternion 0 0 0 1"]
    degenerate_probe_unobstructed [of "main_scene [] [1]"
      "main_controls\<lparr>camera := \<lparr>position = Vector3 0 55 0,
                                 quaternion = Quaternion 1 0 0 1\<rparr>\<rparr>"
      "\<lambda>origin direction g. g" True 10 True
      "Raycaster_intersectObjects (\<lambda>origin direction g. g)" 1 "\<lambda>eye point. Quaternion 0 0 0 1"]
    degenerate_probe_unobstructed [of "main_scene [] [1]"
      "main_controls\<lparr>camera := \<lparr>position = Vector3 0 55 0,
                                 quaternion = Quaternion 0 0 0 0\<rparr>\<rparr>"
      "\<lambda>origin direction g. g" False 10 True
      "Raycaster_intersectObjects (\<lambda>origin direction g. g)" 1 "\<lambda>eye point. Quaternion 0 0 0 1"]
    degenerate_probe_unobstructed [of "Object3D THREE_Scene [] []" "onKeyDown 87 main_controls"
      "\<lambda>origin direction g. g" True 10 True
      "Raycaster_intersectObjects (\<lambda>origin direction g. g)" 1 "\<lambda>eye point. Quaternion 0 0 0 1"]
  by (simp add: getCollideableObjects_children main_scene_children main_controls_def
        new_KeyControls_def main_camera_def applyQuaternion_def cross_def Let_def
        translateZ_def translateX_def translateOnAxis_def multiplyScalar_def add_def
        onKeyDown_def)

end
